theory Spec2Isabelle
  imports Main "HOL-Library.Word" "HOL-Library.Sublist"
begin

unbundle bit_operations_syntax

section \<open>The sunxi CIR receiver driver (drivers/media/rc/sunxi-cir.c)\<close>

text \<open>
  The driver talks to three collaborators: the memory-mapped register block of the
  controller, the raw-IR core (\<open>ir_raw_event_*\<close>, \<open>rc_*\<close>) and the platform services
  (clocks, pin, interrupt line, mapping, allocator). None of them is part of the file, so
  the model records every call the driver makes, in program order, as a list of
  \<open>event\<close>s, and takes every value a collaborator hands back (a register read, a return
  code, a handle) from a record of the environment's answers. A theorem that quantifies
  over that record holds for whatever the hardware and the kernel answer.

  The target is the 32-bit ARM sun4i platform: \<open>unsigned long\<close>, \<open>__u32\<close>, \<open>unsigned\<close>
  and pointers are 32-bit words, a null pointer is the word 0. The C \<open>int\<close> return
  codes are modelled as \<open>int\<close>; the driver only compares them with 0.
\<close>

type_synonym u8 = "8 word"
type_synonym u32 = "32 word"

subsection \<open>Constants of the driver\<close>

text \<open>
  The register-bit macros are C \<open>int\<close> constant expressions with small non-negative
  values; they are only ever combined with \<open>|\<close>, \<open><<\<close> and \<open>&\<close> and stored into an
  \<open>unsigned long\<close>, so they are given as 32-bit words.
\<close>

definition IR_CLOCK_RATE :: u32 where "IR_CLOCK_RATE = 8000000"
definition IR_SAMPLE_CLK_SEL :: u32 where "IR_SAMPLE_CLK_SEL = push_bit 0 0x0"
definition IR_RXFILT_VAL :: u32 where "IR_RXFILT_VAL = 1"
definition IR_RXIDLE_VAL :: u32 where "IR_RXIDLE_VAL = 29"
definition IR_FIFO_SIZE :: u32 where "IR_FIFO_SIZE = 16"
definition IR_INVERT_INPUT :: u32 where "IR_INVERT_INPUT = 1"
definition VALUE_MASK :: u8 where "VALUE_MASK = 0x80"
definition PERIOD_MASK :: u8 where "PERIOD_MASK = 0x7f"

definition CIR_SAMPLE_HZ :: u32 where
  "CIR_SAMPLE_HZ = IR_CLOCK_RATE div (push_bit (unat IR_SAMPLE_CLK_SEL) 64)"

definition CIR_SAMPLE_PERIOD :: u32 where
  "CIR_SAMPLE_PERIOD = 1000000000 div CIR_SAMPLE_HZ"

definition IR_CTRL_REG :: u32 where "IR_CTRL_REG = 0x00"
definition IR_RXCFG_REG :: u32 where "IR_RXCFG_REG = 0x10"
definition IR_RXDAT_REG :: u32 where "IR_RXDAT_REG = 0x20"
definition IR_RXINTE_REG :: u32 where "IR_RXINTE_REG = 0x2C"
definition IR_RXINTS_REG :: u32 where "IR_RXINTS_REG = 0x30"
definition IR_SPLCFG_REG :: u32 where "IR_SPLCFG_REG = 0x34"

definition IR_RXINTS_RXOF :: u32 where "IR_RXINTS_RXOF = push_bit 0 0x1"
definition IR_RXINTS_RXPE :: u32 where "IR_RXINTS_RXPE = push_bit 1 0x1"
definition IR_RXINTS_RXDA :: u32 where "IR_RXINTS_RXDA = push_bit 4 0x1"

definition IRDA_MODE_CIR :: u32 where "IRDA_MODE_CIR = push_bit 4 0x3"
definition IR_RX_EN :: u32 where "IR_RX_EN = push_bit 1 0x1"
definition IR_GLOB_EN :: u32 where "IR_GLOB_EN = push_bit 0 0x1"

definition IR_INVERT_EN :: u32 where "IR_INVERT_EN = push_bit 2 IR_INVERT_INPUT"

definition RPEI_EN :: u32 where "RPEI_EN = push_bit 0 0x1"
definition RISI_EN :: u32 where "RISI_EN = push_bit 1 0x1"
definition RAI_EN :: u32 where "RAI_EN = push_bit 4 0x1"

definition SUCCESS :: int where "SUCCESS = 0"

text \<open>
  The errno values come from the kernel's headers, which are not part of the file; they
  are the standard Linux numbers. The driver returns them negated.
\<close>

definition EINTR :: int where "EINTR = 4"
definition EIO :: int where "EIO = 5"
definition ENOMEM :: int where "ENOMEM = 12"
definition EINVAL :: int where "EINVAL = 22"

subsection \<open>Data\<close>

text \<open>
  \<open>struct sunxi_ir_chip\<close>. The spinlock carries no data the driver reads; taking and
  dropping it are events.
\<close>

record sunxi_ir_chip =
  rcdev :: u32
  dev :: u32
  gaddr :: u32
  gpio_hdle :: u32
  apb_ir_clk :: u32
  ir_clk :: u32

text \<open>
  Modelled from the spec: \<open>struct ir_raw_event\<close> is declared in media/rc-core.h, which
  is not part of the file. The spec's Pulse Event is \<open>{ is_mark: bool, duration_ns: u32 }\<close>;
  the driver writes the two fields \<open>pulse\<close> and \<open>duration\<close> and leaves the others as
  \<open>init_ir_raw_event\<close> zeroed them.
\<close>

record ir_raw_event =
  duration :: u32
  pulse :: bool

datatype irqreturn_t = IRQ_NONE | IRQ_HANDLED | IRQ_WAKE_THREAD

text \<open>
  One constructor per call the driver makes into a collaborator. Calls whose result the
  driver tests carry the result as their last argument. The \<open>pr_err\<close> and \<open>pr_info\<close>
  log lines are left out.
\<close>

datatype event =
    Readl u32 u32
  | Writel u32 u32
  | Spin_lock_irqsave
  | Spin_unlock_irqrestore
  | Ir_raw_event_store_with_filter u32 ir_raw_event
  | Ir_raw_event_handle u32
  | Ir_raw_event_set_idle u32 bool
  | Ir_raw_event_reset u32
  | Kzalloc u32
  | Kfree u32
  | Rc_allocate_device u32
  | Rc_free_device u32
  | Rc_register_device u32 int
  | Rc_unregister_device u32
  | Request_irq u32 int
  | Free_irq u32
  | Ioremap u32
  | Iounmap u32
  | Platform_set_drvdata u32
  | Gpio_request_ex u32
  | Gpio_release u32 u32
  | Clk_get string u32
  | Clk_set_rate u32 u32 int
  | Clk_get_rate u32
  | Clk_enable u32 int
  | Clk_disable u32

subsection \<open>The interrupt handler\<close>

text \<open>
  What the controller answers during one interrupt: \<open>rxints\<close> is the value the read of
  the interrupt-status register returns, \<open>rxdat k\<close> the value the \<open>k\<close>-th read (from 0)
  of the data register returns in this invocation.
\<close>

record cir_hw =
  rxints :: u32
  rxdat :: "nat \<Rightarrow> u32"

text \<open>The body of the \<open>for\<close> loop for one value read from the data register.\<close>

definition raw_event_of :: "u32 \<Rightarrow> ir_raw_event" where
  "raw_event_of v =
     (let gval = (ucast v :: u8)
      in \<lparr> duration = ucast (gval AND PERIOD_MASK) * CIR_SAMPLE_PERIOD,
           pulse = (gval AND VALUE_MASK \<noteq> 0) \<rparr>)"

text \<open>
  \<open>for (i = 0; i < scnt; i++)\<close>: \<open>i\<close> is an \<open>int\<close> that stays within 0..255, \<open>scnt\<close> a
  \<open>u8\<close> promoted to \<open>int\<close> for the comparison.
\<close>

function fifo_loop :: "cir_hw \<Rightarrow> sunxi_ir_chip \<Rightarrow> nat \<Rightarrow> u8 \<Rightarrow> event list" where
  "fifo_loop hw ir_chip i scnt =
     (if i < unat scnt
      then [Readl (gaddr ir_chip + IR_RXDAT_REG) (rxdat hw i),
            Ir_raw_event_store_with_filter (rcdev ir_chip) (raw_event_of (rxdat hw i)),
            Ir_raw_event_handle (rcdev ir_chip)]
           @ fifo_loop hw ir_chip (i + 1) scnt
      else [])"
  by pat_completeness auto
termination
  by (relation "measure (\<lambda>(hw, ir_chip, i, scnt). unat scnt - i)") auto

declare fifo_loop.simps [simp del]

definition sunxi_ir_irq :: "cir_hw \<Rightarrow> sunxi_ir_chip \<Rightarrow> irqreturn_t \<times> event list" where
  "sunxi_ir_irq hw ir_chip =
     (let intsta = rxints hw;
          scnt = (ucast (drop_bit 8 intsta AND 0xff) :: u8)
      in (IRQ_HANDLED,
          [Spin_lock_irqsave,
           Readl (gaddr ir_chip + IR_RXINTS_REG) intsta,
           Writel (intsta AND 0xff) (gaddr ir_chip + IR_RXINTS_REG)]
          @ fifo_loop hw ir_chip 0 scnt
          @ (if intsta AND IR_RXINTS_RXPE \<noteq> 0
             then [Ir_raw_event_set_idle (rcdev ir_chip) True] else [])
          @ (if intsta AND IR_RXINTS_RXOF \<noteq> 0
             then [Ir_raw_event_reset (rcdev ir_chip)] else [])
          @ [Spin_unlock_irqrestore]))"

subsection \<open>Setup and stop of the receiver\<close>

text \<open>
  What the platform answers during \<open>sunxi_ir_probe\<close>, one field per call site whose
  result the driver uses. \<open>ctrl_readl\<close> is the value the read of the control register at
  the end of \<open>ir_setup\<close> returns.
\<close>

record platform =
  kzalloc_ret :: u32
  rc_allocate_device_ret :: u32
  rc_register_device_ret :: int
  request_irq_ret :: int
  ioremap_ret :: u32
  gpio_request_ex_ret :: u32
  clk_get_apb_ir0_ret :: u32
  clk_get_ir0_ret :: u32
  clk_set_rate_ret :: int
  clk_enable_apb_ret :: int
  clk_enable_ir_ret :: int
  ctrl_readl :: u32

text \<open>The register writes at the end of \<open>ir_setup\<close>, from "Enable CIR Mode" on.\<close>

definition splcfg_value :: u32 where
  "splcfg_value =
     IR_SAMPLE_CLK_SEL OR push_bit 2 (IR_RXFILT_VAL AND 0x3f) OR push_bit 8 (IR_RXIDLE_VAL AND 0xff)"

definition rxinte_value :: u32 where
  "rxinte_value = (RPEI_EN OR RISI_EN OR RAI_EN) OR push_bit 8 (drop_bit 1 IR_FIFO_SIZE - 1)"

definition ir_setup_regs :: "platform \<Rightarrow> sunxi_ir_chip \<Rightarrow> event list" where
  "ir_setup_regs pf ir_chip =
     [Writel IRDA_MODE_CIR (gaddr ir_chip + IR_CTRL_REG),
      Writel splcfg_value (gaddr ir_chip + IR_SPLCFG_REG),
      Writel IR_INVERT_EN (gaddr ir_chip + IR_RXCFG_REG),
      Writel 0xff (gaddr ir_chip + IR_RXINTS_REG),
      Writel rxinte_value (gaddr ir_chip + IR_RXINTE_REG),
      Readl (gaddr ir_chip + IR_CTRL_REG) (ctrl_readl pf),
      Writel (ctrl_readl pf OR IR_GLOB_EN OR IR_RX_EN) (gaddr ir_chip + IR_CTRL_REG)]"

text \<open>
  \<open>ir_setup\<close>: every failed step returns at once; nothing is released here. The result
  is the return code, the handle as the function left it, and the calls made.
\<close>

definition ir_setup :: "platform \<Rightarrow> sunxi_ir_chip \<Rightarrow> int \<times> sunxi_ir_chip \<times> event list" where
  "ir_setup pf c0 =
     (let c1 = c0\<lparr>gpio_hdle := gpio_request_ex_ret pf\<rparr>;
          t1 = [Gpio_request_ex (gpio_hdle c1)]
      in if gpio_hdle c1 = 0 then (- EINVAL, c1, t1) else
      let c2 = c1\<lparr>apb_ir_clk := clk_get_apb_ir0_ret pf\<rparr>;
          t2 = t1 @ [Clk_get ''apb_ir0'' (apb_ir_clk c2)]
      in if apb_ir_clk c2 = 0 then (- EINVAL, c2, t2) else
      let c3 = c2\<lparr>ir_clk := clk_get_ir0_ret pf\<rparr>;
          t3 = t2 @ [Clk_get ''ir0'' (ir_clk c3)]
      in if ir_clk c3 = 0 then (- EINVAL, c3, t3) else
      let t4 = t3 @ [Clk_set_rate (ir_clk c3) IR_CLOCK_RATE (clk_set_rate_ret pf)]
      in if clk_set_rate_ret pf \<noteq> 0 then (- EINTR, c3, t4) else
      let t5 = t4 @ [Clk_get_rate (ir_clk c3),
                     Clk_enable (apb_ir_clk c3) (clk_enable_apb_ret pf)]
      in if clk_enable_apb_ret pf \<noteq> 0 then (- EINTR, c3, t5) else
      let t6 = t5 @ [Clk_enable (ir_clk c3) (clk_enable_ir_ret pf)]
      in if clk_enable_ir_ret pf \<noteq> 0 then (- EINTR, c3, t6) else
      (SUCCESS, c3, t6 @ ir_setup_regs pf c3))"

definition ir_stop :: "sunxi_ir_chip \<Rightarrow> event list" where
  "ir_stop ir_chip =
     [Writel 0 (gaddr ir_chip + IR_RXINTE_REG),
      Writel 0xff (gaddr ir_chip + IR_RXINTS_REG),
      Writel 0 (gaddr ir_chip + IR_CTRL_REG)]
     @ (if ir_clk ir_chip \<noteq> 0 then [Clk_disable (ir_clk ir_chip)] else [])
     @ (if apb_ir_clk ir_chip \<noteq> 0 then [Clk_disable (apb_ir_clk ir_chip)] else [])
     @ [Gpio_release (gpio_hdle ir_chip) 1]"

subsection \<open>Probe and remove\<close>

text \<open>
  The labels at the end of \<open>sunxi_ir_probe\<close>; each falls through to the next. The first
  argument is the pointer \<open>ir_chip\<close>, the second the structure it points to.
\<close>

definition err_allocate :: "u32 \<Rightarrow> event list" where
  "err_allocate p = [Kfree p]"

definition err_register :: "u32 \<Rightarrow> sunxi_ir_chip \<Rightarrow> event list" where
  "err_register p ir_chip = Rc_free_device (rcdev ir_chip) # err_allocate p"

definition err_irq :: "u32 \<Rightarrow> sunxi_ir_chip \<Rightarrow> event list" where
  "err_irq p ir_chip = Rc_unregister_device (rcdev ir_chip) # err_register p ir_chip"

definition err_map :: "u32 \<Rightarrow> sunxi_ir_chip \<Rightarrow> event list" where
  "err_map p ir_chip = Free_irq p # err_irq p ir_chip"

definition err_setup :: "u32 \<Rightarrow> sunxi_ir_chip \<Rightarrow> event list" where
  "err_setup p ir_chip = ir_stop ir_chip @ [Iounmap (gaddr ir_chip)] @ err_map p ir_chip"

text \<open>\<open>kzalloc\<close> hands out zeroed memory.\<close>

definition zeroed_chip :: sunxi_ir_chip where
  "zeroed_chip = \<lparr> rcdev = 0, dev = 0, gaddr = 0, gpio_hdle = 0, apb_ir_clk = 0, ir_clk = 0 \<rparr>"

text \<open>
  \<open>sunxi_ir_probe\<close>. The result is the return code, the controller handle that is live
  afterwards (\<open>None\<close> when the structure was never allocated or has been freed again) and
  the calls made. The assignments to the fields of the \<open>rc_dev\<close> structure are plain
  stores into memory of the raw-IR core and are left out.
\<close>

definition sunxi_ir_probe :: "platform \<Rightarrow> int \<times> sunxi_ir_chip option \<times> event list" where
  "sunxi_ir_probe pf =
     (let p = kzalloc_ret pf;
          t0 = [Kzalloc p]
      in if p = 0 then (- ENOMEM, None, t0) else
      let c1 = zeroed_chip\<lparr>rcdev := rc_allocate_device_ret pf\<rparr>;
          t1 = t0 @ [Rc_allocate_device (rcdev c1)]
      in if rcdev c1 = 0 then (- ENOMEM, None, t1 @ err_allocate p) else
      let err = rc_register_device_ret pf;
          t2 = t1 @ [Rc_register_device (rcdev c1) err]
      in if err < 0 then (err, None, t2 @ err_register p c1) else
      let err = request_irq_ret pf;
          t3 = t2 @ [Request_irq p err]
      in if err < 0 then (err, None, t3 @ err_irq p c1) else
      let c2 = c1\<lparr>gaddr := ioremap_ret pf\<rparr>;
          t4 = t3 @ [Ioremap (gaddr c2)]
      in if gaddr c2 = 0 then (- EIO, None, t4 @ err_map p c2) else
      let t5 = t4 @ [Platform_set_drvdata p, Ir_raw_event_reset (rcdev c2)];
          (err, c3, ts) = ir_setup pf c2
      in if err \<noteq> 0 then (err, None, t5 @ ts @ err_setup p c3)
         else (SUCCESS, Some c3, t5 @ ts))"

text \<open>
  \<open>sunxi_ir_remove\<close>: \<open>p\<close> is the pointer \<open>platform_get_drvdata\<close> returns, \<open>ir_chip\<close> the
  structure found there. The function tests nothing and clears nothing.
\<close>

definition sunxi_ir_remove :: "u32 \<Rightarrow> sunxi_ir_chip \<Rightarrow> int \<times> event list" where
  "sunxi_ir_remove p ir_chip =
     (SUCCESS,
      ir_stop ir_chip
      @ [Iounmap (gaddr ir_chip),
         Free_irq p,
         Rc_unregister_device (rcdev ir_chip),
         Rc_free_device (rcdev ir_chip),
         Kfree p])"

subsection \<open>Observations on a run\<close>

text \<open>
  The fields of the interrupt-status word as the register layout gives them: bit 0 is
  the FIFO overflow, bit 1 the packet end, bits 8 to 15 the number of samples available.
\<close>

definition overflow :: "u32 \<Rightarrow> bool" where
  "overflow s = bit s 0"

definition packet_end :: "u32 \<Rightarrow> bool" where
  "packet_end s = bit s 1"

definition available_count :: "u32 \<Rightarrow> nat" where
  "available_count s = unat (take_bit 8 (drop_bit 8 s))"

text \<open>The events handed to the raw-IR core by \<open>ir_raw_event_store_with_filter\<close>, in order.\<close>

fun push_of :: "event \<Rightarrow> ir_raw_event option" where
  "push_of (Ir_raw_event_store_with_filter r e) = Some e"
| "push_of _ = None"

definition pushes :: "event list \<Rightarrow> ir_raw_event list" where
  "pushes tr = List.map_filter push_of tr"

text \<open>
  The three calls of the event sink: push (\<open>ir_raw_event_store_with_filter\<close>), idle
  notification (\<open>ir_raw_event_set_idle\<close>) and reset (\<open>ir_raw_event_reset\<close>).
\<close>

fun is_sink_call :: "event \<Rightarrow> bool" where
  "is_sink_call (Ir_raw_event_store_with_filter r e) = True"
| "is_sink_call (Ir_raw_event_set_idle r b) = True"
| "is_sink_call (Ir_raw_event_reset r) = True"
| "is_sink_call _ = False"

definition sink_calls :: "event list \<Rightarrow> event list" where
  "sink_calls tr = filter is_sink_call tr"

text \<open>The accesses of a run to one register address, in order.\<close>

fun accesses :: "u32 \<Rightarrow> event \<Rightarrow> bool" where
  "accesses a (Readl a' v) = (a' = a)"
| "accesses a (Writel v a') = (a' = a)"
| "accesses a _ = False"

definition accesses_of :: "u32 \<Rightarrow> event list \<Rightarrow> event list" where
  "accesses_of a tr = filter (accesses a) tr"

text \<open>
  Resources. \<open>failed e\<close> says that the acquisition call \<open>e\<close> failed, by the test the
  driver itself applies to its result. \<open>release_of e\<close> is the call by which the driver's
  teardown gives back what a successful call \<open>e\<close> acquired: \<open>ir_stop\<close> disables each
  clock whose handle is not null and releases the pin, the labels of \<open>sunxi_ir_probe\<close>
  undo the steps of the probe. The driver contains no call of \<open>clk_put\<close>; for it, giving
  a clock back is \<open>clk_disable\<close>.
\<close>

fun is_step :: "event \<Rightarrow> bool" where
  "is_step (Kzalloc p) = True"
| "is_step (Rc_allocate_device r) = True"
| "is_step (Rc_register_device r err) = True"
| "is_step (Request_irq p err) = True"
| "is_step (Ioremap a) = True"
| "is_step (Gpio_request_ex h) = True"
| "is_step (Clk_get n c) = True"
| "is_step (Clk_set_rate c r err) = True"
| "is_step (Clk_enable c err) = True"
| "is_step _ = False"

fun failed :: "event \<Rightarrow> bool" where
  "failed (Kzalloc p) = (p = 0)"
| "failed (Rc_allocate_device r) = (r = 0)"
| "failed (Rc_register_device r err) = (err < 0)"
| "failed (Request_irq p err) = (err < 0)"
| "failed (Ioremap a) = (a = 0)"
| "failed (Gpio_request_ex h) = (h = 0)"
| "failed (Clk_get n c) = (c = 0)"
| "failed (Clk_set_rate c r err) = (err \<noteq> 0)"
| "failed (Clk_enable c err) = (err \<noteq> 0)"
| "failed _ = False"

fun release_of :: "event \<Rightarrow> event option" where
  "release_of (Kzalloc p) = (if p \<noteq> 0 then Some (Kfree p) else None)"
| "release_of (Rc_allocate_device r) = (if r \<noteq> 0 then Some (Rc_free_device r) else None)"
| "release_of (Rc_register_device r err) = (if err < 0 then None else Some (Rc_unregister_device r))"
| "release_of (Request_irq p err) = (if err < 0 then None else Some (Free_irq p))"
| "release_of (Ioremap a) = (if a \<noteq> 0 then Some (Iounmap a) else None)"
| "release_of (Gpio_request_ex h) = (if h \<noteq> 0 then Some (Gpio_release h 1) else None)"
| "release_of (Clk_get n c) = (if c \<noteq> 0 then Some (Clk_disable c) else None)"
| "release_of _ = None"

text \<open>The releases a run owes, in the order of the acquisitions.\<close>

definition owed :: "event list \<Rightarrow> event list" where
  "owed tr = List.map_filter release_of tr"

text \<open>
  Read the other way, with the enabling of a clock as the acquisition: the
  \<open>clk_disable\<close> calls a run owes for the clocks it enabled, in the order of the
  \<open>clk_enable\<close> calls.
\<close>

fun disable_of :: "event \<Rightarrow> event option" where
  "disable_of (Clk_enable c err) = (if err \<noteq> 0 then None else Some (Clk_disable c))"
| "disable_of _ = None"

definition owed_disables :: "event list \<Rightarrow> event list" where
  "owed_disables tr = List.map_filter disable_of tr"

fun is_release :: "event \<Rightarrow> bool" where
  "is_release (Kfree p) = True"
| "is_release (Rc_free_device r) = True"
| "is_release (Rc_unregister_device r) = True"
| "is_release (Free_irq p) = True"
| "is_release (Iounmap a) = True"
| "is_release (Gpio_release h f) = True"
| "is_release (Clk_disable c) = True"
| "is_release _ = False"

definition releases :: "event list \<Rightarrow> event list" where
  "releases tr = filter is_release tr"

text \<open>
  \<open>precedes a b tr\<close>: the call \<open>b\<close> is made after the first call \<open>a\<close> of the run, and not
  before it.
\<close>

definition precedes :: "event \<Rightarrow> event \<Rightarrow> event list \<Rightarrow> bool" where
  "precedes a b tr =
     (b \<in> set (tl (dropWhile (\<lambda>e. e \<noteq> a) tr)) \<and> b \<notin> set (takeWhile (\<lambda>e. e \<noteq> a) tr))"

text \<open>The values written to one register address by a run, in order.\<close>

fun write_to :: "u32 \<Rightarrow> event \<Rightarrow> u32 option" where
  "write_to a (Writel v a') = (if a' = a then Some v else None)"
| "write_to a _ = None"

definition writes_to :: "u32 \<Rightarrow> event list \<Rightarrow> u32 list" where
  "writes_to a tr = List.map_filter (write_to a) tr"

subsection \<open>Concrete runs\<close>

text \<open>
  An interrupt with the overflow bit set and two samples available, the data register
  answering 0x85 and then 0x02; a controller handle as a successful probe leaves it; a
  platform on which every step succeeds, and one on which the module clock \<open>ir0\<close> cannot
  be obtained.
\<close>

definition hw0 :: cir_hw where
  "hw0 = \<lparr> rxints = 0x201, rxdat = (\<lambda>k. if k = 0 then 0x85 else 0x02) \<rparr>"

definition c0 :: sunxi_ir_chip where
  "c0 = \<lparr> rcdev = 0xC0002000, dev = 0, gaddr = 0xF1C21800, gpio_hdle = 5,
          apb_ir_clk = 0xC0003000, ir_clk = 0xC0004000 \<rparr>"

definition pf_ok :: platform where
  "pf_ok = \<lparr> kzalloc_ret = 0xC0001000, rc_allocate_device_ret = 0xC0002000,
     rc_register_device_ret = 0, request_irq_ret = 0, ioremap_ret = 0xF1C21800,
     gpio_request_ex_ret = 5, clk_get_apb_ir0_ret = 0xC0003000, clk_get_ir0_ret = 0xC0004000,
     clk_set_rate_ret = 0, clk_enable_apb_ret = 0, clk_enable_ir_ret = 0, ctrl_readl = 0x30 \<rparr>"

text \<open>The pointer \<open>kzalloc\<close> returns on \<open>pf_ok\<close>, and the handle as it is before \<open>ir_setup\<close>.\<close>

definition p0 :: u32 where
  "p0 = 0xC0001000"

definition c_mapped :: sunxi_ir_chip where
  "c_mapped = zeroed_chip\<lparr> rcdev := 0xC0002000, gaddr := 0xF1C21800 \<rparr>"

definition pf_no_ir0 :: platform where
  "pf_no_ir0 = pf_ok\<lparr> clk_get_ir0_ret := 0 \<rparr>"

section \<open>Facts about the interrupt handler\<close>

lemma CIR_SAMPLE_PERIOD_val: "CIR_SAMPLE_PERIOD = 8000"
  by (simp add: CIR_SAMPLE_PERIOD_def CIR_SAMPLE_HZ_def IR_CLOCK_RATE_def IR_SAMPLE_CLK_SEL_def)

lemma ticks_le: "unat ((gval :: u8) AND PERIOD_MASK) \<le> 127"
proof -
  have "gval AND PERIOD_MASK \<le> PERIOD_MASK" by (rule word_and_le1)
  then have "unat (gval AND PERIOD_MASK) \<le> unat PERIOD_MASK" by (simp add: word_le_nat_alt)
  then show ?thesis by (simp add: PERIOD_MASK_def)
qed

lemma unat_duration:
  "unat (duration (raw_event_of v)) = unat ((ucast v :: u8) AND PERIOD_MASK) * 8000"
proof -
  let ?t = "(ucast v :: u8) AND PERIOD_MASK"
  have le: "unat ?t \<le> 127" by (rule ticks_le)
  have "unat ((ucast ?t :: u32) * 8000) = (unat (ucast ?t :: u32) * unat (8000 :: u32)) mod 2 ^ 32"
    by (simp add: unat_word_ariths)
  also have "unat (ucast ?t :: u32) = unat ?t"
  proof -
    have "unat ?t < 2 ^ 32" using le by simp
    then show ?thesis by (simp add: unsigned_ucast_eq take_bit_nat_eq_self)
  qed
  also have "(unat ?t * unat (8000 :: u32)) mod 2 ^ 32 = unat ?t * 8000"
    using le by simp
  finally show ?thesis by (simp add: raw_event_of_def CIR_SAMPLE_PERIOD_val Let_def)
qed

lemma fifo_loop_unroll:
  "fifo_loop hw c i n =
     concat (map (\<lambda>k. [Readl (gaddr c + IR_RXDAT_REG) (rxdat hw k),
                        Ir_raw_event_store_with_filter (rcdev c) (raw_event_of (rxdat hw k)),
                        Ir_raw_event_handle (rcdev c)]) [i ..< unat n])"
proof (induction hw c i n rule: fifo_loop.induct)
  case (1 hw c i n)
  show ?case
  proof (cases "i < unat n")
    case True
    with 1 show ?thesis by (subst fifo_loop.simps) (simp add: upt_conv_Cons)
  next
    case False
    then show ?thesis by (subst fifo_loop.simps) simp
  qed
qed

lemma rxpe_bit: "(s AND IR_RXINTS_RXPE \<noteq> 0) = packet_end s"
  unfolding IR_RXINTS_RXPE_def packet_end_def
  by (rule bit_iff_and_push_bit_not_eq_0 [symmetric])

lemma rxof_bit: "(s AND IR_RXINTS_RXOF \<noteq> 0) = overflow s"
  unfolding IR_RXINTS_RXOF_def overflow_def
  by (rule bit_iff_and_push_bit_not_eq_0 [symmetric])

lemma low_byte_mask: "(x :: u32) AND 0xff = take_bit 8 x"
proof -
  have "(0xff :: u32) = mask 8" by (simp add: mask_eq_exp_minus_1)
  then show ?thesis by (simp add: take_bit_eq_mask)
qed

lemma scnt_count: "unat (ucast (drop_bit 8 s AND 0xff) :: u8) = available_count (s :: u32)"
proof -
  have "unat (ucast (take_bit 8 (drop_bit 8 s)) :: u8) = take_bit 8 (unat (take_bit 8 (drop_bit 8 s)))"
    by (simp add: unsigned_ucast_eq)
  also have "\<dots> = unat (take_bit 8 (drop_bit 8 s))"
    by (simp add: unsigned_take_bit_eq)
  finally show ?thesis by (simp add: low_byte_mask available_count_def)
qed

lemma irq_trace:
  "snd (sunxi_ir_irq hw c) =
     [Spin_lock_irqsave,
      Readl (gaddr c + IR_RXINTS_REG) (rxints hw),
      Writel (rxints hw AND 0xff) (gaddr c + IR_RXINTS_REG)]
     @ concat (map (\<lambda>k. [Readl (gaddr c + IR_RXDAT_REG) (rxdat hw k),
                          Ir_raw_event_store_with_filter (rcdev c) (raw_event_of (rxdat hw k)),
                          Ir_raw_event_handle (rcdev c)]) [0 ..< available_count (rxints hw)])
     @ (if packet_end (rxints hw) then [Ir_raw_event_set_idle (rcdev c) True] else [])
     @ (if overflow (rxints hw) then [Ir_raw_event_reset (rcdev c)] else [])
     @ [Spin_unlock_irqrestore]"
  by (simp add: sunxi_ir_irq_def Let_def fifo_loop_unroll scnt_count rxpe_bit rxof_bit)

lemma sink_calls_simps:
  "sink_calls [] = []"
  "sink_calls (e # es) = (if is_sink_call e then e # sink_calls es else sink_calls es)"
  "sink_calls (xs @ ys) = sink_calls xs @ sink_calls ys"
  by (simp_all add: sink_calls_def)

lemma pushes_simps:
  "pushes [] = []"
  "pushes (e # es) = (case push_of e of None \<Rightarrow> pushes es | Some x \<Rightarrow> x # pushes es)"
  "pushes (xs @ ys) = pushes xs @ pushes ys"
  by (simp_all add: pushes_def map_filter_def split: option.splits)

lemma accesses_of_simps:
  "accesses_of a [] = []"
  "accesses_of a (e # es) = (if accesses a e then e # accesses_of a es else accesses_of a es)"
  "accesses_of a (xs @ ys) = accesses_of a xs @ accesses_of a ys"
  by (simp_all add: accesses_of_def)

lemma sink_calls_loop:
  "sink_calls (concat (map (\<lambda>k. [Readl a (f k), Ir_raw_event_store_with_filter r (g k),
                                   Ir_raw_event_handle r]) ks))
   = map (\<lambda>k. Ir_raw_event_store_with_filter r (g k)) ks"
  by (induction ks) (simp_all add: sink_calls_simps)

lemma pushes_loop:
  "pushes (concat (map (\<lambda>k. [Readl a (f k), Ir_raw_event_store_with_filter r (g k),
                               Ir_raw_event_handle r]) ks))
   = map g ks"
  by (induction ks) (simp_all add: pushes_simps)

lemma accesses_of_loop:
  "a \<noteq> b \<Longrightarrow>
   accesses_of b (concat (map (\<lambda>k. [Readl a (f k), Ir_raw_event_store_with_filter r (g k),
                               Ir_raw_event_handle r]) ks)) = []"
  by (induction ks) (simp_all add: accesses_of_simps)

lemma irq_sink_calls:
  "sink_calls (snd (sunxi_ir_irq hw c)) =
     map (\<lambda>k. Ir_raw_event_store_with_filter (rcdev c) (raw_event_of (rxdat hw k)))
         [0 ..< available_count (rxints hw)]
     @ (if packet_end (rxints hw) then [Ir_raw_event_set_idle (rcdev c) True] else [])
     @ (if overflow (rxints hw) then [Ir_raw_event_reset (rcdev c)] else [])"
  by (simp add: irq_trace sink_calls_simps sink_calls_loop)

lemma irq_pushes:
  "pushes (snd (sunxi_ir_irq hw c)) = map (\<lambda>k. raw_event_of (rxdat hw k)) [0 ..< available_count (rxints hw)]"
  by (simp add: irq_trace pushes_simps pushes_loop)

lemma count_0x201: "available_count 0x201 = 2"
  by (simp add: available_count_def)

lemma overflow_0x201: "overflow 0x201"
  by (simp add: overflow_def)

lemma not_pe_0x201: "\<not> packet_end 0x201"
  by (simp add: packet_end_def)

lemma ev85: "raw_event_of 0x85 = \<lparr> duration = 40000, pulse = True \<rparr>"
  by (simp add: raw_event_of_def CIR_SAMPLE_PERIOD_val PERIOD_MASK_def VALUE_MASK_def)

lemma ev02: "raw_event_of 0x02 = \<lparr> duration = 16000, pulse = False \<rparr>"
  by (simp add: raw_event_of_def CIR_SAMPLE_PERIOD_val PERIOD_MASK_def VALUE_MASK_def)

lemma pulse_raw_event_of: "pulse (raw_event_of v) = ((ucast v :: u8) AND 0x80 \<noteq> 0)"
  by (simp add: raw_event_of_def Let_def VALUE_MASK_def)

lemma duration_raw_event_of:
  "duration (raw_event_of v) = ucast ((ucast v :: u8) AND 0x7f) * CIR_SAMPLE_PERIOD"
  by (simp add: raw_event_of_def Let_def PERIOD_MASK_def)

section \<open>The claims about the interrupt handler\<close>

text \<open>
  C1. Every sample the handler reads from the data register is forwarded as a pulse
  event built from the low byte \<open>b\<close> of the value read: the event is a mark exactly when
  bit 7 of \<open>b\<close> is set, its tick count is \<open>b AND 0x7f\<close>, and its duration is the tick
  count times the sample period, as a 32-bit product and also as a product of natural
  numbers (nothing wraps). \<open>k\<close> numbers the samples of one invocation from 0.
\<close>

theorem irq_pulse_event_decoding:
  assumes "k < available_count (rxints hw)"
  shows "let b = (ucast (rxdat hw k) :: u8);
             e = pushes (snd (sunxi_ir_irq hw c)) ! k
         in pulse e = (b AND 0x80 \<noteq> 0)
            \<and> duration e = ucast (b AND 0x7f) * CIR_SAMPLE_PERIOD
            \<and> unat (duration e) = unat (b AND 0x7f) * unat CIR_SAMPLE_PERIOD"
proof -
  have nth: "pushes (snd (sunxi_ir_irq hw c)) ! k = raw_event_of (rxdat hw k)"
    using assms by (simp add: irq_pushes)
  have "unat (duration (raw_event_of (rxdat hw k)))
        = unat ((ucast (rxdat hw k) :: u8) AND 0x7f) * unat CIR_SAMPLE_PERIOD"
    using unat_duration [of "rxdat hw k"] by (simp add: PERIOD_MASK_def CIR_SAMPLE_PERIOD_val)
  then show ?thesis
    by (simp add: nth Let_def pulse_raw_event_of duration_raw_event_of)
qed

theorem irq_pulse_event_decoding_witness:
  "(0::nat) < available_count (rxints hw0)
   \<and> pulse (pushes (snd (sunxi_ir_irq hw0 c0)) ! 0) = True
   \<and> unat (duration (pushes (snd (sunxi_ir_irq hw0 c0)) ! 0)) = 5 * 8000"
proof -
  have h: "(0::nat) < available_count (rxints hw0)"
    by (simp add: hw0_def count_0x201)
  from irq_pulse_event_decoding [OF h, of c0] show ?thesis
    using h by (simp add: Let_def hw0_def CIR_SAMPLE_PERIOD_val)
qed

text \<open>
  C2. With \<open>N\<close> samples announced in the status word (0 included), one invocation makes
  exactly \<open>N\<close> push calls, the \<open>k\<close>-th for the \<open>k\<close>-th value read, followed by the idle
  notification when the packet-end bit is set and then by the reset when the overflow
  bit is set; the two bits are acted on whatever \<open>N\<close> is.
\<close>

theorem irq_delivers_fifo_in_order:
  "sink_calls (snd (sunxi_ir_irq hw c)) =
     map (\<lambda>k. Ir_raw_event_store_with_filter (rcdev c) (raw_event_of (rxdat hw k)))
         [0 ..< available_count (rxints hw)]
     @ (if packet_end (rxints hw) then [Ir_raw_event_set_idle (rcdev c) True] else [])
     @ (if overflow (rxints hw) then [Ir_raw_event_reset (rcdev c)] else [])
   \<and> pushes (snd (sunxi_ir_irq hw c))
       = map (\<lambda>k. raw_event_of (rxdat hw k)) [0 ..< available_count (rxints hw)]
   \<and> length (pushes (snd (sunxi_ir_irq hw c))) = available_count (rxints hw)"
  by (simp add: irq_sink_calls irq_pushes)

text \<open>
  C3, as the code has it. The handler reads the interrupt-status register once and
  writes it once, right after the read and before anything else; the value written is
  the value read masked to its low byte, so the bits written are exactly the observed
  bits 0 to 7 and the sample count in bits 8 to 15 is not written back.
\<close>

theorem irq_status_write_back_low_byte:
  "accesses_of (gaddr c + IR_RXINTS_REG) (snd (sunxi_ir_irq hw c)) =
     [Readl (gaddr c + IR_RXINTS_REG) (rxints hw),
      Writel (rxints hw AND 0xff) (gaddr c + IR_RXINTS_REG)]
   \<and> take 3 (snd (sunxi_ir_irq hw c)) =
       [Spin_lock_irqsave,
        Readl (gaddr c + IR_RXINTS_REG) (rxints hw),
        Writel (rxints hw AND 0xff) (gaddr c + IR_RXINTS_REG)]
   \<and> (\<forall>n. bit (rxints hw AND 0xff) n = (n < 8 \<and> bit (rxints hw) n))"
proof -
  have ne: "gaddr c + IR_RXDAT_REG \<noteq> gaddr c + IR_RXINTS_REG"
    by (simp add: IR_RXDAT_REG_def IR_RXINTS_REG_def)
  have bits: "\<forall>n. bit (rxints hw AND 0xff) n = (n < 8 \<and> bit (rxints hw) n)"
    by (simp add: low_byte_mask bit_take_bit_iff)
  show ?thesis
    by (simp add: irq_trace accesses_of_simps accesses_of_loop [OF ne] bits)
qed

text \<open>
  The value written back is not the value read: with two samples announced and the
  overflow bit set the handler reads 0x201 and writes 0x01.
\<close>

theorem irq_status_write_back_counterexample:
  "accesses_of (gaddr c0 + IR_RXINTS_REG) (snd (sunxi_ir_irq hw0 c0)) \<noteq>
     [Readl (gaddr c0 + IR_RXINTS_REG) (rxints hw0),
      Writel (rxints hw0) (gaddr c0 + IR_RXINTS_REG)]"
proof -
  have ne: "gaddr c0 + IR_RXDAT_REG \<noteq> gaddr c0 + IR_RXINTS_REG"
    by (simp add: IR_RXDAT_REG_def IR_RXINTS_REG_def)
  show ?thesis
    by (simp add: irq_trace accesses_of_simps accesses_of_loop [OF ne]) (simp add: hw0_def)
qed

text \<open>
  C7. The sample period is 8000 ns for the 8 MHz clock and the divider 64; the bytes
  0x85 and 0x02 become a mark of 40000 ns and a space of 16000 ns; a status word with
  the overflow bit set and two samples announced gives two push calls and then one
  reset (with the idle notification between them when the packet-end bit is set too).
\<close>

theorem end_to_end_scenario:
  assumes "overflow (rxints hw)" and "available_count (rxints hw) = 2"
  shows "IR_CLOCK_RATE = 8000000
         \<and> push_bit (unat IR_SAMPLE_CLK_SEL) 64 = (64 :: u32)
         \<and> CIR_SAMPLE_PERIOD = 8000
         \<and> raw_event_of 0x85 = \<lparr> duration = 40000, pulse = True \<rparr>
         \<and> raw_event_of 0x02 = \<lparr> duration = 16000, pulse = False \<rparr>
         \<and> sink_calls (snd (sunxi_ir_irq hw c)) =
             [Ir_raw_event_store_with_filter (rcdev c) (raw_event_of (rxdat hw 0)),
              Ir_raw_event_store_with_filter (rcdev c) (raw_event_of (rxdat hw 1))]
             @ (if packet_end (rxints hw) then [Ir_raw_event_set_idle (rcdev c) True] else [])
             @ [Ir_raw_event_reset (rcdev c)]"
proof -
  have "[0 ..< available_count (rxints hw)] = [0, 1]"
    using assms(2) by (simp add: upt_conv_Cons)
  then show ?thesis
    using assms(1)
    by (simp add: irq_sink_calls ev85 ev02 CIR_SAMPLE_PERIOD_val IR_CLOCK_RATE_def IR_SAMPLE_CLK_SEL_def)
qed

theorem end_to_end_scenario_witness:
  "overflow (rxints hw0) \<and> available_count (rxints hw0) = 2
   \<and> sink_calls (snd (sunxi_ir_irq hw0 c0)) =
       [Ir_raw_event_store_with_filter (rcdev c0) \<lparr> duration = 40000, pulse = True \<rparr>,
        Ir_raw_event_store_with_filter (rcdev c0) \<lparr> duration = 16000, pulse = False \<rparr>,
        Ir_raw_event_reset (rcdev c0)]"
proof -
  have h1: "overflow (rxints hw0)" by (simp add: hw0_def overflow_0x201)
  have h2: "available_count (rxints hw0) = 2" by (simp add: hw0_def count_0x201)
  have pe: "\<not> packet_end (rxints hw0)" by (simp add: hw0_def not_pe_0x201)
  from end_to_end_scenario [OF h1 h2, of c0] show ?thesis
    using h1 h2 pe by (simp add: hw0_def ev85 ev02)
qed

text \<open>
  C9. Whatever the status word and the data, the handler returns \<open>IRQ_HANDLED\<close>. The
  loop runs at most 255 times, so the handler always returns.
\<close>

theorem irq_always_handled: "fst (sunxi_ir_irq hw c) = IRQ_HANDLED"
  by (simp add: sunxi_ir_irq_def Let_def)

text \<open>
  C10. For every value read from the data register, with \<open>b\<close> its low byte: the
  duration is \<open>b AND 0x7f\<close> times 8000 without wrap-around in 32 bits, a multiple of
  8000, at most 127 * 8000 = 1016000, and zero exactly when the tick field is zero.
\<close>

theorem duration_exact_and_bounded:
  "let b = (ucast v :: u8); d = duration (raw_event_of v)
   in unat CIR_SAMPLE_PERIOD = 8000
      \<and> unat d = unat (b AND 0x7f) * unat CIR_SAMPLE_PERIOD
      \<and> unat (b AND 0x7f) * unat CIR_SAMPLE_PERIOD < 2 ^ 32
      \<and> 8000 dvd unat d
      \<and> unat d \<le> 127 * 8000
      \<and> (d = 0) = (b AND 0x7f = 0)"
proof -
  let ?t = "(ucast v :: u8) AND 0x7f"
  have le: "unat ?t \<le> 127" using ticks_le [of "ucast v"] by (simp add: PERIOD_MASK_def)
  have d: "unat (duration (raw_event_of v)) = unat ?t * 8000"
    using unat_duration [of v] by (simp add: PERIOD_MASK_def)
  have z: "(duration (raw_event_of v) = 0) = (?t = 0)"
  proof -
    have "(duration (raw_event_of v) = 0) = (unat (duration (raw_event_of v)) = 0)"
      by (simp add: unat_eq_0)
    also have "\<dots> = (unat ?t = 0)" by (simp add: d)
    also have "\<dots> = (?t = 0)" by (simp add: unat_eq_0)
    finally show ?thesis .
  qed
  show ?thesis using le by (simp add: Let_def d z CIR_SAMPLE_PERIOD_val)
qed

section \<open>Facts about setup, probe and remove\<close>

lemmas probe_defs = sunxi_ir_probe_def ir_setup_def Let_def zeroed_chip_def err_setup_def err_map_def
  err_irq_def err_register_def err_allocate_def ir_stop_def ir_setup_regs_def
  SUCCESS_def EINVAL_def EINTR_def EIO_def ENOMEM_def

lemma owed_simps:
  "owed [] = []"
  "owed (e # es) = (case release_of e of None \<Rightarrow> owed es | Some x \<Rightarrow> x # owed es)"
  "owed (xs @ ys) = owed xs @ owed ys"
  by (simp_all add: owed_def map_filter_def split: option.splits)

lemma owed_disables_simps:
  "owed_disables [] = []"
  "owed_disables (e # es) = (case disable_of e of None \<Rightarrow> owed_disables es | Some x \<Rightarrow> x # owed_disables es)"
  "owed_disables (xs @ ys) = owed_disables xs @ owed_disables ys"
  by (simp_all add: owed_disables_def map_filter_def split: option.splits)

lemma releases_simps:
  "releases [] = []"
  "releases (e # es) = (if is_release e then e # releases es else releases es)"
  "releases (xs @ ys) = releases xs @ releases ys"
  by (simp_all add: releases_def)

lemma precedes_simps:
  "precedes a b [] = False"
  "precedes a b (e # es) = (if e = a then b \<in> set es else b \<noteq> e \<and> precedes a b es)"
  by (auto simp: precedes_def)

lemma probe_outcomes:
  "(fst (sunxi_ir_probe pf) = SUCCESS \<and> filter failed (snd (snd (sunxi_ir_probe pf))) = [])
   \<or> (fst (sunxi_ir_probe pf) < 0 \<and> filter failed (snd (snd (sunxi_ir_probe pf))) \<noteq> []
       \<and> fst (snd (sunxi_ir_probe pf)) = None
       \<and> dropWhile (\<lambda>e. \<not> failed e) (snd (snd (sunxi_ir_probe pf))) \<noteq> []
       \<and> filter is_step (tl (dropWhile (\<lambda>e. \<not> failed e) (snd (snd (sunxi_ir_probe pf))))) = []
       \<and> releases (takeWhile (\<lambda>e. \<not> failed e) (snd (snd (sunxi_ir_probe pf)))) = []
       \<and> subseq (rev (owed (snd (snd (sunxi_ir_probe pf))))) (releases (snd (snd (sunxi_ir_probe pf))))
       \<and> subseq (rev (owed_disables (snd (snd (sunxi_ir_probe pf)))))
                 (releases (snd (snd (sunxi_ir_probe pf)))))"
proof -
  consider
      (no_memory) "kzalloc_ret pf = 0"
    | (no_rc_device) "kzalloc_ret pf \<noteq> 0" "rc_allocate_device_ret pf = 0"
    | (not_registered) "kzalloc_ret pf \<noteq> 0" "rc_allocate_device_ret pf \<noteq> 0" "rc_register_device_ret pf < 0"
    | (no_irq) "kzalloc_ret pf \<noteq> 0" "rc_allocate_device_ret pf \<noteq> 0" "\<not> rc_register_device_ret pf < 0" "request_irq_ret pf < 0"
    | (not_mapped) "kzalloc_ret pf \<noteq> 0" "rc_allocate_device_ret pf \<noteq> 0" "\<not> rc_register_device_ret pf < 0" "\<not> request_irq_ret pf < 0" "ioremap_ret pf = 0"
    | (no_pin) "kzalloc_ret pf \<noteq> 0" "rc_allocate_device_ret pf \<noteq> 0" "\<not> rc_register_device_ret pf < 0" "\<not> request_irq_ret pf < 0" "ioremap_ret pf \<noteq> 0" "gpio_request_ex_ret pf = 0"
    | (no_apb_clock) "kzalloc_ret pf \<noteq> 0" "rc_allocate_device_ret pf \<noteq> 0" "\<not> rc_register_device_ret pf < 0" "\<not> request_irq_ret pf < 0" "ioremap_ret pf \<noteq> 0" "gpio_request_ex_ret pf \<noteq> 0" "clk_get_apb_ir0_ret pf = 0"
    | (no_ir_clock) "kzalloc_ret pf \<noteq> 0" "rc_allocate_device_ret pf \<noteq> 0" "\<not> rc_register_device_ret pf < 0" "\<not> request_irq_ret pf < 0" "ioremap_ret pf \<noteq> 0" "gpio_request_ex_ret pf \<noteq> 0" "clk_get_apb_ir0_ret pf \<noteq> 0" "clk_get_ir0_ret pf = 0"
    | (no_rate) "kzalloc_ret pf \<noteq> 0" "rc_allocate_device_ret pf \<noteq> 0" "\<not> rc_register_device_ret pf < 0" "\<not> request_irq_ret pf < 0" "ioremap_ret pf \<noteq> 0" "gpio_request_ex_ret pf \<noteq> 0" "clk_get_apb_ir0_ret pf \<noteq> 0" "clk_get_ir0_ret pf \<noteq> 0" "clk_set_rate_ret pf \<noteq> 0"
    | (apb_not_enabled) "kzalloc_ret pf \<noteq> 0" "rc_allocate_device_ret pf \<noteq> 0" "\<not> rc_register_device_ret pf < 0" "\<not> request_irq_ret pf < 0" "ioremap_ret pf \<noteq> 0" "gpio_request_ex_ret pf \<noteq> 0" "clk_get_apb_ir0_ret pf \<noteq> 0" "clk_get_ir0_ret pf \<noteq> 0" "clk_set_rate_ret pf = 0" "clk_enable_apb_ret pf \<noteq> 0"
    | (ir_not_enabled) "kzalloc_ret pf \<noteq> 0" "rc_allocate_device_ret pf \<noteq> 0" "\<not> rc_register_device_ret pf < 0" "\<not> request_irq_ret pf < 0" "ioremap_ret pf \<noteq> 0" "gpio_request_ex_ret pf \<noteq> 0" "clk_get_apb_ir0_ret pf \<noteq> 0" "clk_get_ir0_ret pf \<noteq> 0" "clk_set_rate_ret pf = 0" "clk_enable_apb_ret pf = 0" "clk_enable_ir_ret pf \<noteq> 0"
    | (all_ok) "kzalloc_ret pf \<noteq> 0" "rc_allocate_device_ret pf \<noteq> 0" "\<not> rc_register_device_ret pf < 0" "\<not> request_irq_ret pf < 0" "ioremap_ret pf \<noteq> 0" "gpio_request_ex_ret pf \<noteq> 0" "clk_get_apb_ir0_ret pf \<noteq> 0" "clk_get_ir0_ret pf \<noteq> 0" "clk_set_rate_ret pf = 0" "clk_enable_apb_ret pf = 0" "clk_enable_ir_ret pf = 0"
    by blast
  then show ?thesis
  proof cases
    case no_memory
    then show ?thesis
      by (simp add: probe_defs owed_simps owed_disables_simps releases_simps)
  next
    case no_rc_device
    then show ?thesis
      by (simp add: probe_defs owed_simps owed_disables_simps releases_simps)
  next
    case not_registered
    then show ?thesis
      by (simp add: probe_defs owed_simps owed_disables_simps releases_simps)
  next
    case no_irq
    then show ?thesis
      by (simp add: probe_defs owed_simps owed_disables_simps releases_simps)
  next
    case not_mapped
    then show ?thesis
      by (simp add: probe_defs owed_simps owed_disables_simps releases_simps)
  next
    case no_pin
    then show ?thesis
      by (simp add: probe_defs owed_simps owed_disables_simps releases_simps)
  next
    case no_apb_clock
    then show ?thesis
      by (simp add: probe_defs owed_simps owed_disables_simps releases_simps)
  next
    case no_ir_clock
    then show ?thesis
      by (simp add: probe_defs owed_simps owed_disables_simps releases_simps)
  next
    case no_rate
    then show ?thesis
      by (simp add: probe_defs owed_simps owed_disables_simps releases_simps)
  next
    case apb_not_enabled
    then show ?thesis
      by (simp add: probe_defs owed_simps owed_disables_simps releases_simps)
  next
    case ir_not_enabled
    then show ?thesis
      by (simp add: probe_defs owed_simps owed_disables_simps releases_simps)
  next
    case all_ok
    then show ?thesis
      by (simp add: probe_defs owed_simps owed_disables_simps releases_simps)
  qed
qed


lemma probe_unmap_order:
  "Iounmap a \<in> set (snd (snd (sunxi_ir_probe pf))) \<Longrightarrow>
   precedes (Iounmap a) (Free_irq (kzalloc_ret pf)) (snd (snd (sunxi_ir_probe pf)))
   \<and> precedes (Writel 0 (a + IR_RXINTE_REG)) (Iounmap a) (snd (snd (sunxi_ir_probe pf)))"
proof -
  assume that: "Iounmap a \<in> set (snd (snd (sunxi_ir_probe pf)))"
  consider
      (no_memory) "kzalloc_ret pf = 0"
    | (no_rc_device) "kzalloc_ret pf \<noteq> 0" "rc_allocate_device_ret pf = 0"
    | (not_registered) "kzalloc_ret pf \<noteq> 0" "rc_allocate_device_ret pf \<noteq> 0" "rc_register_device_ret pf < 0"
    | (no_irq) "kzalloc_ret pf \<noteq> 0" "rc_allocate_device_ret pf \<noteq> 0" "\<not> rc_register_device_ret pf < 0" "request_irq_ret pf < 0"
    | (not_mapped) "kzalloc_ret pf \<noteq> 0" "rc_allocate_device_ret pf \<noteq> 0" "\<not> rc_register_device_ret pf < 0" "\<not> request_irq_ret pf < 0" "ioremap_ret pf = 0"
    | (no_pin) "kzalloc_ret pf \<noteq> 0" "rc_allocate_device_ret pf \<noteq> 0" "\<not> rc_register_device_ret pf < 0" "\<not> request_irq_ret pf < 0" "ioremap_ret pf \<noteq> 0" "gpio_request_ex_ret pf = 0"
    | (no_apb_clock) "kzalloc_ret pf \<noteq> 0" "rc_allocate_device_ret pf \<noteq> 0" "\<not> rc_register_device_ret pf < 0" "\<not> request_irq_ret pf < 0" "ioremap_ret pf \<noteq> 0" "gpio_request_ex_ret pf \<noteq> 0" "clk_get_apb_ir0_ret pf = 0"
    | (no_ir_clock) "kzalloc_ret pf \<noteq> 0" "rc_allocate_device_ret pf \<noteq> 0" "\<not> rc_register_device_ret pf < 0" "\<not> request_irq_ret pf < 0" "ioremap_ret pf \<noteq> 0" "gpio_request_ex_ret pf \<noteq> 0" "clk_get_apb_ir0_ret pf \<noteq> 0" "clk_get_ir0_ret pf = 0"
    | (no_rate) "kzalloc_ret pf \<noteq> 0" "rc_allocate_device_ret pf \<noteq> 0" "\<not> rc_register_device_ret pf < 0" "\<not> request_irq_ret pf < 0" "ioremap_ret pf \<noteq> 0" "gpio_request_ex_ret pf \<noteq> 0" "clk_get_apb_ir0_ret pf \<noteq> 0" "clk_get_ir0_ret pf \<noteq> 0" "clk_set_rate_ret pf \<noteq> 0"
    | (apb_not_enabled) "kzalloc_ret pf \<noteq> 0" "rc_allocate_device_ret pf \<noteq> 0" "\<not> rc_register_device_ret pf < 0" "\<not> request_irq_ret pf < 0" "ioremap_ret pf \<noteq> 0" "gpio_request_ex_ret pf \<noteq> 0" "clk_get_apb_ir0_ret pf \<noteq> 0" "clk_get_ir0_ret pf \<noteq> 0" "clk_set_rate_ret pf = 0" "clk_enable_apb_ret pf \<noteq> 0"
    | (ir_not_enabled) "kzalloc_ret pf \<noteq> 0" "rc_allocate_device_ret pf \<noteq> 0" "\<not> rc_register_device_ret pf < 0" "\<not> request_irq_ret pf < 0" "ioremap_ret pf \<noteq> 0" "gpio_request_ex_ret pf \<noteq> 0" "clk_get_apb_ir0_ret pf \<noteq> 0" "clk_get_ir0_ret pf \<noteq> 0" "clk_set_rate_ret pf = 0" "clk_enable_apb_ret pf = 0" "clk_enable_ir_ret pf \<noteq> 0"
    | (all_ok) "kzalloc_ret pf \<noteq> 0" "rc_allocate_device_ret pf \<noteq> 0" "\<not> rc_register_device_ret pf < 0" "\<not> request_irq_ret pf < 0" "ioremap_ret pf \<noteq> 0" "gpio_request_ex_ret pf \<noteq> 0" "clk_get_apb_ir0_ret pf \<noteq> 0" "clk_get_ir0_ret pf \<noteq> 0" "clk_set_rate_ret pf = 0" "clk_enable_apb_ret pf = 0" "clk_enable_ir_ret pf = 0"
    by blast
  then show ?thesis
  proof cases
    case no_memory
    then show ?thesis
      using that by (simp add: probe_defs precedes_simps)
  next
    case no_rc_device
    then show ?thesis
      using that by (simp add: probe_defs precedes_simps)
  next
    case not_registered
    then show ?thesis
      using that by (simp add: probe_defs precedes_simps)
  next
    case no_irq
    then show ?thesis
      using that by (simp add: probe_defs precedes_simps)
  next
    case not_mapped
    then show ?thesis
      using that by (simp add: probe_defs precedes_simps)
  next
    case no_pin
    then show ?thesis
      using that by (simp add: probe_defs precedes_simps)
  next
    case no_apb_clock
    then show ?thesis
      using that by (simp add: probe_defs precedes_simps)
  next
    case no_ir_clock
    then show ?thesis
      using that by (simp add: probe_defs precedes_simps)
  next
    case no_rate
    then show ?thesis
      using that by (simp add: probe_defs precedes_simps)
  next
    case apb_not_enabled
    then show ?thesis
      using that by (simp add: probe_defs precedes_simps)
  next
    case ir_not_enabled
    then show ?thesis
      using that by (simp add: probe_defs precedes_simps)
  next
    case all_ok
    then show ?thesis
      using that by (simp add: probe_defs precedes_simps)
  qed
qed


lemma probe_remove_mirror:
  "case fst (snd (sunxi_ir_probe pf)) of
     Some c \<Rightarrow> fst (sunxi_ir_probe pf) = SUCCESS
              \<and> releases (snd (sunxi_ir_remove (kzalloc_ret pf) c)) = rev (owed (snd (snd (sunxi_ir_probe pf))))
   | None \<Rightarrow> fst (sunxi_ir_probe pf) \<noteq> SUCCESS"
proof -
  consider
      (no_memory) "kzalloc_ret pf = 0"
    | (no_rc_device) "kzalloc_ret pf \<noteq> 0" "rc_allocate_device_ret pf = 0"
    | (not_registered) "kzalloc_ret pf \<noteq> 0" "rc_allocate_device_ret pf \<noteq> 0" "rc_register_device_ret pf < 0"
    | (no_irq) "kzalloc_ret pf \<noteq> 0" "rc_allocate_device_ret pf \<noteq> 0" "\<not> rc_register_device_ret pf < 0" "request_irq_ret pf < 0"
    | (not_mapped) "kzalloc_ret pf \<noteq> 0" "rc_allocate_device_ret pf \<noteq> 0" "\<not> rc_register_device_ret pf < 0" "\<not> request_irq_ret pf < 0" "ioremap_ret pf = 0"
    | (no_pin) "kzalloc_ret pf \<noteq> 0" "rc_allocate_device_ret pf \<noteq> 0" "\<not> rc_register_device_ret pf < 0" "\<not> request_irq_ret pf < 0" "ioremap_ret pf \<noteq> 0" "gpio_request_ex_ret pf = 0"
    | (no_apb_clock) "kzalloc_ret pf \<noteq> 0" "rc_allocate_device_ret pf \<noteq> 0" "\<not> rc_register_device_ret pf < 0" "\<not> request_irq_ret pf < 0" "ioremap_ret pf \<noteq> 0" "gpio_request_ex_ret pf \<noteq> 0" "clk_get_apb_ir0_ret pf = 0"
    | (no_ir_clock) "kzalloc_ret pf \<noteq> 0" "rc_allocate_device_ret pf \<noteq> 0" "\<not> rc_register_device_ret pf < 0" "\<not> request_irq_ret pf < 0" "ioremap_ret pf \<noteq> 0" "gpio_request_ex_ret pf \<noteq> 0" "clk_get_apb_ir0_ret pf \<noteq> 0" "clk_get_ir0_ret pf = 0"
    | (no_rate) "kzalloc_ret pf \<noteq> 0" "rc_allocate_device_ret pf \<noteq> 0" "\<not> rc_register_device_ret pf < 0" "\<not> request_irq_ret pf < 0" "ioremap_ret pf \<noteq> 0" "gpio_request_ex_ret pf \<noteq> 0" "clk_get_apb_ir0_ret pf \<noteq> 0" "clk_get_ir0_ret pf \<noteq> 0" "clk_set_rate_ret pf \<noteq> 0"
    | (apb_not_enabled) "kzalloc_ret pf \<noteq> 0" "rc_allocate_device_ret pf \<noteq> 0" "\<not> rc_register_device_ret pf < 0" "\<not> request_irq_ret pf < 0" "ioremap_ret pf \<noteq> 0" "gpio_request_ex_ret pf \<noteq> 0" "clk_get_apb_ir0_ret pf \<noteq> 0" "clk_get_ir0_ret pf \<noteq> 0" "clk_set_rate_ret pf = 0" "clk_enable_apb_ret pf \<noteq> 0"
    | (ir_not_enabled) "kzalloc_ret pf \<noteq> 0" "rc_allocate_device_ret pf \<noteq> 0" "\<not> rc_register_device_ret pf < 0" "\<not> request_irq_ret pf < 0" "ioremap_ret pf \<noteq> 0" "gpio_request_ex_ret pf \<noteq> 0" "clk_get_apb_ir0_ret pf \<noteq> 0" "clk_get_ir0_ret pf \<noteq> 0" "clk_set_rate_ret pf = 0" "clk_enable_apb_ret pf = 0" "clk_enable_ir_ret pf \<noteq> 0"
    | (all_ok) "kzalloc_ret pf \<noteq> 0" "rc_allocate_device_ret pf \<noteq> 0" "\<not> rc_register_device_ret pf < 0" "\<not> request_irq_ret pf < 0" "ioremap_ret pf \<noteq> 0" "gpio_request_ex_ret pf \<noteq> 0" "clk_get_apb_ir0_ret pf \<noteq> 0" "clk_get_ir0_ret pf \<noteq> 0" "clk_set_rate_ret pf = 0" "clk_enable_apb_ret pf = 0" "clk_enable_ir_ret pf = 0"
    by blast
  then show ?thesis
  proof cases
    case no_memory
    then show ?thesis
      by (simp add: probe_defs sunxi_ir_remove_def owed_simps releases_simps)
  next
    case no_rc_device
    then show ?thesis
      by (simp add: probe_defs sunxi_ir_remove_def owed_simps releases_simps)
  next
    case not_registered
    then show ?thesis
      by (simp add: probe_defs sunxi_ir_remove_def owed_simps releases_simps)
  next
    case no_irq
    then show ?thesis
      by (simp add: probe_defs sunxi_ir_remove_def owed_simps releases_simps)
  next
    case not_mapped
    then show ?thesis
      by (simp add: probe_defs sunxi_ir_remove_def owed_simps releases_simps)
  next
    case no_pin
    then show ?thesis
      by (simp add: probe_defs sunxi_ir_remove_def owed_simps releases_simps)
  next
    case no_apb_clock
    then show ?thesis
      by (simp add: probe_defs sunxi_ir_remove_def owed_simps releases_simps)
  next
    case no_ir_clock
    then show ?thesis
      by (simp add: probe_defs sunxi_ir_remove_def owed_simps releases_simps)
  next
    case no_rate
    then show ?thesis
      by (simp add: probe_defs sunxi_ir_remove_def owed_simps releases_simps)
  next
    case apb_not_enabled
    then show ?thesis
      by (simp add: probe_defs sunxi_ir_remove_def owed_simps releases_simps)
  next
    case ir_not_enabled
    then show ?thesis
      by (simp add: probe_defs sunxi_ir_remove_def owed_simps releases_simps)
  next
    case all_ok
    then show ?thesis
      by (simp add: probe_defs sunxi_ir_remove_def owed_simps releases_simps)
  qed
qed


lemma remove_releases:
  "releases (snd (sunxi_ir_remove p c)) =
     (if ir_clk c \<noteq> 0 then [Clk_disable (ir_clk c)] else [])
     @ (if apb_ir_clk c \<noteq> 0 then [Clk_disable (apb_ir_clk c)] else [])
     @ [Gpio_release (gpio_hdle c) 1, Iounmap (gaddr c), Free_irq p,
        Rc_unregister_device (rcdev c), Rc_free_device (rcdev c), Kfree p]"
  by (simp add: sunxi_ir_remove_def ir_stop_def releases_simps)

lemma remove_order:
  "precedes (Writel 0 (gaddr c + IR_RXINTE_REG)) (Iounmap (gaddr c)) (snd (sunxi_ir_remove p c))
   \<and> precedes (Iounmap (gaddr c)) (Free_irq p) (snd (sunxi_ir_remove p c))"
  by (simp add: sunxi_ir_remove_def ir_stop_def precedes_simps)

lemma writes_to_simps:
  "writes_to a [] = []"
  "writes_to a (e # es) = (case write_to a e of None \<Rightarrow> writes_to a es | Some v \<Rightarrow> v # writes_to a es)"
  "writes_to a (xs @ ys) = writes_to a xs @ writes_to a ys"
  by (simp_all add: writes_to_def map_filter_def split: option.splits)

lemmas reg_defs = IR_CTRL_REG_def IR_RXCFG_REG_def IR_RXDAT_REG_def IR_RXINTE_REG_def
  IR_RXINTS_REG_def IR_SPLCFG_REG_def

lemma rxinte_value_val: "rxinte_value = 0x713"
  by (simp add: rxinte_value_def RPEI_EN_def RISI_EN_def RAI_EN_def IR_FIFO_SIZE_def)

lemma setup_rxinte:
  "fst (ir_setup pf c) = SUCCESS \<Longrightarrow>
   writes_to (gaddr c + IR_RXINTE_REG) (snd (snd (ir_setup pf c))) = [rxinte_value]"
  by (simp add: ir_setup_def Let_def ir_setup_regs_def writes_to_simps reg_defs SUCCESS_def EINVAL_def EINTR_def split: if_splits)

lemma rxinte_bits:
  "bit rxinte_value 0 \<and> bit rxinte_value 1 \<and> bit rxinte_value 4
   \<and> take_bit 8 rxinte_value = RPEI_EN OR RISI_EN OR RAI_EN
   \<and> drop_bit 8 rxinte_value = drop_bit 1 IR_FIFO_SIZE - 1
   \<and> drop_bit 8 rxinte_value = 7 \<and> drop_bit 1 IR_FIFO_SIZE = 8"
  by (simp add: rxinte_value_val RPEI_EN_def RISI_EN_def RAI_EN_def IR_FIFO_SIZE_def)

lemma probe_pf_ok_handle: "fst (snd (sunxi_ir_probe pf_ok)) = Some c0 \<and> kzalloc_ret pf_ok = p0"
  by (simp add: pf_ok_def probe_defs c0_def p0_def)

section \<open>The claims about setup, probe and remove\<close>

text \<open>
  C4. The probe returns \<open>SUCCESS\<close> exactly when no acquisition step failed. When a step
  fails (the pin request, either \<open>clk_get\<close>, the rate setting, either \<open>clk_enable\<close>, or
  one of the steps of the probe before them), no further step is attempted, nothing has
  been released before the failure, and before the probe returns its negative error
  code every resource acquired so far has been given back, in the reverse order of the
  acquisitions: the pin by \<open>gpio_release\<close>, each clock whose handle was obtained by
  \<open>clk_disable\<close>, then the mapping, the interrupt line, the rc device and the handle's
  memory. Counting the enabling of a clock as the acquisition instead, every clock that
  was enabled is disabled again, in reverse order. No live handle remains.
\<close>

theorem probe_failure_unwinds:
  "(fst (sunxi_ir_probe pf) = SUCCESS) = (filter failed (snd (snd (sunxi_ir_probe pf))) = [])
   \<and> (filter failed (snd (snd (sunxi_ir_probe pf))) \<noteq> [] \<longrightarrow>
        fst (sunxi_ir_probe pf) < 0
        \<and> fst (snd (sunxi_ir_probe pf)) = None
        \<and> dropWhile (\<lambda>e. \<not> failed e) (snd (snd (sunxi_ir_probe pf))) \<noteq> []
        \<and> filter is_step (tl (dropWhile (\<lambda>e. \<not> failed e) (snd (snd (sunxi_ir_probe pf))))) = []
        \<and> releases (takeWhile (\<lambda>e. \<not> failed e) (snd (snd (sunxi_ir_probe pf)))) = []
        \<and> subseq (rev (owed (snd (snd (sunxi_ir_probe pf)))))
                  (releases (snd (snd (sunxi_ir_probe pf))))
        \<and> subseq (rev (owed_disables (snd (snd (sunxi_ir_probe pf)))))
                  (releases (snd (snd (sunxi_ir_probe pf)))))"
  using probe_outcomes [of pf] by (auto simp: SUCCESS_def)

theorem probe_failure_unwinds_witness:
  "filter failed (snd (snd (sunxi_ir_probe pf_no_ir0))) \<noteq> []
   \<and> fst (sunxi_ir_probe pf_no_ir0) = - EINVAL
   \<and> fst (snd (sunxi_ir_probe pf_no_ir0)) = None
   \<and> owed (snd (snd (sunxi_ir_probe pf_no_ir0))) =
       [Kfree 0xC0001000, Rc_free_device 0xC0002000, Rc_unregister_device 0xC0002000,
        Free_irq 0xC0001000, Iounmap 0xF1C21800, Gpio_release 5 1, Clk_disable 0xC0003000]
   \<and> releases (snd (snd (sunxi_ir_probe pf_no_ir0))) =
       [Clk_disable 0xC0003000, Gpio_release 5 1, Iounmap 0xF1C21800, Free_irq 0xC0001000,
        Rc_unregister_device 0xC0002000, Rc_free_device 0xC0002000, Kfree 0xC0001000]"
proof -
  have h: "filter failed (snd (snd (sunxi_ir_probe pf_no_ir0))) \<noteq> []"
    by (simp add: pf_no_ir0_def pf_ok_def probe_defs)
  from probe_failure_unwinds [of pf_no_ir0] h
  have "fst (snd (sunxi_ir_probe pf_no_ir0)) = None" by simp
  then show ?thesis
    using h by (simp add: pf_no_ir0_def pf_ok_def probe_defs owed_simps releases_simps)
qed

text \<open>
  C5, as the code has it. In \<open>sunxi_ir_remove\<close> and in the unwinding of a failed setup
  the receive interrupts of the controller are disabled (0 is written to the
  interrupt-enable register) before the register block is unmapped, and the register
  block is unmapped before the interrupt handler is deregistered: \<open>iounmap\<close> comes
  before \<open>free_irq\<close>, because the probe requests the interrupt line before it maps the
  registers and the teardown undoes the acquisitions in exactly the reverse order. After
  a successful probe the releases of \<open>sunxi_ir_remove\<close> are the reverse of the probe's
  acquisitions; after a failed one the unwinding gives back what was acquired, in
  reverse order.
\<close>

theorem teardown_unmaps_before_irq_free:
  "precedes (Writel 0 (gaddr c + IR_RXINTE_REG)) (Iounmap (gaddr c)) (snd (sunxi_ir_remove p c))
   \<and> precedes (Iounmap (gaddr c)) (Free_irq p) (snd (sunxi_ir_remove p c))
   \<and> (Iounmap a \<in> set (snd (snd (sunxi_ir_probe pf))) \<longrightarrow>
        precedes (Writel 0 (a + IR_RXINTE_REG)) (Iounmap a) (snd (snd (sunxi_ir_probe pf)))
        \<and> precedes (Iounmap a) (Free_irq (kzalloc_ret pf)) (snd (snd (sunxi_ir_probe pf))))
   \<and> (case fst (snd (sunxi_ir_probe pf)) of
         Some c' \<Rightarrow> releases (snd (sunxi_ir_remove (kzalloc_ret pf) c'))
                     = rev (owed (snd (snd (sunxi_ir_probe pf))))
       | None \<Rightarrow> subseq (rev (owed (snd (snd (sunxi_ir_probe pf)))))
                        (releases (snd (snd (sunxi_ir_probe pf)))))"
proof -
  have mirror: "case fst (snd (sunxi_ir_probe pf)) of
         Some c' \<Rightarrow> releases (snd (sunxi_ir_remove (kzalloc_ret pf) c'))
                     = rev (owed (snd (snd (sunxi_ir_probe pf))))
       | None \<Rightarrow> subseq (rev (owed (snd (snd (sunxi_ir_probe pf)))))
                        (releases (snd (snd (sunxi_ir_probe pf))))"
    using probe_remove_mirror [of pf] probe_outcomes [of pf]
    by (auto split: option.splits)
  show ?thesis
    using remove_order [of c p] probe_unmap_order [of a pf] mirror by blast
qed

theorem teardown_unmaps_before_irq_free_witness:
  "Iounmap 0xF1C21800 \<in> set (snd (snd (sunxi_ir_probe pf_no_ir0)))
   \<and> precedes (Iounmap 0xF1C21800) (Free_irq p0) (snd (snd (sunxi_ir_probe pf_no_ir0)))
   \<and> precedes (Iounmap (gaddr c0)) (Free_irq p0) (snd (sunxi_ir_remove p0 c0))
   \<and> fst (snd (sunxi_ir_probe pf_ok)) = Some c0
   \<and> releases (snd (sunxi_ir_remove p0 c0)) = rev (owed (snd (snd (sunxi_ir_probe pf_ok))))"
proof -
  have h: "Iounmap 0xF1C21800 \<in> set (snd (snd (sunxi_ir_probe pf_no_ir0)))"
    by (simp add: pf_no_ir0_def pf_ok_def probe_defs)
  have k: "kzalloc_ret pf_no_ir0 = p0"
    by (simp add: pf_no_ir0_def pf_ok_def p0_def)
  from teardown_unmaps_before_irq_free [of c0 p0 "0xF1C21800" pf_no_ir0]
       teardown_unmaps_before_irq_free [of c0 p0 "0xF1C21800" pf_ok]
  show ?thesis
    using h k probe_pf_ok_handle by simp
qed

text \<open>
  The handler is not deregistered before the register block is unmapped: in
  \<open>sunxi_ir_remove\<close>, and in the unwinding when the module clock cannot be obtained,
  \<open>free_irq\<close> is called after \<open>iounmap\<close>.
\<close>

theorem irq_free_before_unmap_counterexample:
  "\<not> precedes (Free_irq p0) (Iounmap (gaddr c0)) (snd (sunxi_ir_remove p0 c0))
   \<and> \<not> precedes (Free_irq (kzalloc_ret pf_no_ir0)) (Iounmap (ioremap_ret pf_no_ir0))
                  (snd (snd (sunxi_ir_probe pf_no_ir0)))"
  by (simp add: sunxi_ir_remove_def ir_stop_def precedes_simps c0_def p0_def pf_no_ir0_def
      pf_ok_def probe_defs)

text \<open>
  C6, as the code has it. \<open>sunxi_ir_remove\<close> and \<open>ir_stop\<close> test no state and clear no
  field of the handle (\<open>ir_stop\<close> only skips \<open>clk_disable\<close> for a null clock handle), and
  the pointer stored by \<open>platform_set_drvdata\<close> is never cleared. Every call therefore
  returns \<open>SUCCESS\<close> and issues the pin release, the unmapping, the interrupt
  deregistration, the rc-device release and the \<open>kfree\<close> once each, whatever was done
  before; a second call on the same handle issues all of them a second time. Calling the
  teardown only once is left to the caller.
\<close>

theorem remove_releases_on_every_call:
  "fst (sunxi_ir_remove p c) = SUCCESS
   \<and> releases (snd (sunxi_ir_remove p c)) =
       (if ir_clk c \<noteq> 0 then [Clk_disable (ir_clk c)] else [])
       @ (if apb_ir_clk c \<noteq> 0 then [Clk_disable (apb_ir_clk c)] else [])
       @ [Gpio_release (gpio_hdle c) 1, Iounmap (gaddr c), Free_irq p,
          Rc_unregister_device (rcdev c), Rc_free_device (rcdev c), Kfree p]
   \<and> count_list (snd (sunxi_ir_remove p c)) (Kfree p) = 1
   \<and> count_list (snd (sunxi_ir_remove p c) @ snd (sunxi_ir_remove p c)) (Kfree p) = 2
   \<and> count_list (snd (sunxi_ir_remove p c) @ snd (sunxi_ir_remove p c)) (Free_irq p) = 2
   \<and> count_list (snd (sunxi_ir_remove p c) @ snd (sunxi_ir_remove p c)) (Iounmap (gaddr c)) = 2
   \<and> count_list (ir_stop c @ ir_stop c) (Gpio_release (gpio_hdle c) 1) = 2"
  by (simp add: remove_releases releases_simps) (simp add: sunxi_ir_remove_def ir_stop_def)

text \<open>
  The second call is neither a no-op nor an error: on the handle a successful probe
  leaves, a call returns \<open>SUCCESS\<close> and releases, and two calls free the handle's memory
  twice and release the pin twice.
\<close>

theorem second_remove_releases_again_counterexample:
  "fst (sunxi_ir_remove p0 c0) = SUCCESS
   \<and> releases (snd (sunxi_ir_remove p0 c0)) \<noteq> []
   \<and> count_list (snd (sunxi_ir_remove p0 c0) @ snd (sunxi_ir_remove p0 c0)) (Kfree p0) = 2
   \<and> count_list (snd (sunxi_ir_remove p0 c0) @ snd (sunxi_ir_remove p0 c0)) (Gpio_release 5 1) = 2
   \<and> count_list (ir_stop c0 @ ir_stop c0) (Gpio_release 5 1) = 2"
  by (simp add: sunxi_ir_remove_def ir_stop_def releases_simps c0_def p0_def)

text \<open>
  C8, as the code has it. A successful \<open>ir_setup\<close> writes the interrupt-enable register
  once, with the value 0x713: bits 0, 1 and 4 (packet end, illegal symbol, FIFO
  available) are set and nothing else in the low byte, and the field in bits 8 and up
  holds half the FIFO size minus one, which is 7 for the 16-byte FIFO.
\<close>

theorem setup_interrupt_enable_value:
  "fst (ir_setup pf c) = SUCCESS \<longrightarrow>
     writes_to (gaddr c + IR_RXINTE_REG) (snd (snd (ir_setup pf c))) = [rxinte_value]
     \<and> rxinte_value = 0x713
     \<and> bit rxinte_value 0 \<and> bit rxinte_value 1 \<and> bit rxinte_value 4
     \<and> take_bit 8 rxinte_value = RPEI_EN OR RISI_EN OR RAI_EN
     \<and> drop_bit 8 rxinte_value = drop_bit 1 IR_FIFO_SIZE - 1
     \<and> drop_bit 8 rxinte_value = 7"
  using setup_rxinte [of pf c] rxinte_bits rxinte_value_val by blast

theorem setup_interrupt_enable_value_witness:
  "fst (ir_setup pf_ok c_mapped) = SUCCESS
   \<and> writes_to (gaddr c_mapped + IR_RXINTE_REG) (snd (snd (ir_setup pf_ok c_mapped))) = [0x713]"
proof -
  have h: "fst (ir_setup pf_ok c_mapped) = SUCCESS"
    by (simp add: ir_setup_def Let_def pf_ok_def SUCCESS_def)
  from setup_interrupt_enable_value [of pf_ok c_mapped] h show ?thesis
    by simp
qed

text \<open>
  The threshold field is not 8: the value written has 7 in bits 8 and up, while half
  the FIFO size is 8.
\<close>

theorem threshold_field_counterexample:
  "map (drop_bit 8) (writes_to (gaddr c_mapped + IR_RXINTE_REG) (snd (snd (ir_setup pf_ok c_mapped))))
     \<noteq> [8]
   \<and> drop_bit 1 IR_FIFO_SIZE = 8"
  by (simp add: ir_setup_def Let_def ir_setup_regs_def writes_to_simps reg_defs SUCCESS_def
      pf_ok_def c_mapped_def zeroed_chip_def rxinte_value_val IR_FIFO_SIZE_def)

end
